theory Spec2Isabelle
  imports Complex_Main "HOL-Library.Word"
begin

section \<open>Data of \<^verbatim>\<open>vision_pro_streamer_zeroconf.py\<close>\<close>

text \<open>
  The add-on keeps its state in module globals, mutated by Blender operators on the main
  thread, by the dependency-graph handler and by the streaming thread. The model passes
  these globals around as one record. Clock readings (\<^verbatim>\<open>time.time()\<close>) are inputs of
  type \<open>real\<close>; payload bytes are \<open>8 word\<close>; a socket object is named by a number.
\<close>

type_synonym byte = "8 word"
type_synonym path = string
type_synonym sock = nat

text \<open>
  The exceptions that can travel through \<^verbatim>\<open>stream_scene_data\<close>. In Python 3
  \<^verbatim>\<open>socket.error\<close> and \<^verbatim>\<open>IOError\<close> are both \<^verbatim>\<open>OSError\<close>, and the three connection
  errors are subclasses of it.
\<close>

datatype exn =
    BrokenPipeError
  | ConnectionResetError
  | ConnectionAbortedError
  | OSError
  | RuntimeError
  | OverflowError
  | ZeroDivisionError

record device_info =
  host :: string
  port :: nat
  addresses :: "string list"

record state =
  vision_pro_devices :: "string \<rightharpoonup> device_info"
  current_connection :: "sock option"
  streaming_thread :: "bool option"  \<comment> \<open>\<open>None\<close>, or a thread object and its \<^verbatim>\<open>is_alive()\<close>\<close>
  stop_streaming_event :: bool
  last_model_change_time :: real
  is_exporting_usdz :: bool
  export_lock :: bool  \<comment> \<open>\<open>True\<close> while the lock is held\<close>
  pending_changes_during_export :: bool
  is_streaming :: bool  \<comment> \<open>the scene property of that name\<close>
  open_sockets :: "sock list"  \<comment> \<open>connected sockets not yet closed\<close>

definition initial_state :: state where
  "initial_state =
     \<lparr>vision_pro_devices = Map.empty, current_connection = None, streaming_thread = None,
      stop_streaming_event = False, last_model_change_time = 0, is_exporting_usdz = False,
      export_lock = False, pending_changes_during_export = False, is_streaming = False,
      open_sockets = []\<rparr>"

section \<open>The dependency-graph handler\<close>

definition depsgraph_handler_update_time :: "real \<Rightarrow> state \<Rightarrow> state" where
  "depsgraph_handler_update_time now g =
     (if \<not> is_exporting_usdz g then g\<lparr>last_model_change_time := now\<rparr>
      else g\<lparr>pending_changes_during_export := True\<rparr>)"

text \<open>
  What other threads do while the streaming thread runs: the handler fires at some clock
  reading, the Stop operator sets the stop event, or an export callback that outlived its
  five-second wait reaches its \<^verbatim>\<open>finally\<close> and resets the flag.
\<close>

datatype ext_event =
    DepsgraphUpdate real
  | StopStreamingPressed
  | ExportCallbackEnds

fun apply_ext :: "ext_event \<Rightarrow> state \<Rightarrow> state" where
  "apply_ext (DepsgraphUpdate t) g = depsgraph_handler_update_time t g"
| "apply_ext StopStreamingPressed g = g\<lparr>stop_streaming_event := True, is_streaming := False\<rparr>"
| "apply_ext ExportCallbackEnds g = g\<lparr>is_exporting_usdz := False\<rparr>"

fun apply_exts :: "ext_event list \<Rightarrow> state \<Rightarrow> state" where
  "apply_exts [] g = g"
| "apply_exts (e # es) g = apply_exts es (apply_ext e g)"

fun is_change :: "ext_event \<Rightarrow> bool" where
  "is_change (DepsgraphUpdate t) = True"
| "is_change StopStreamingPressed = False"
| "is_change ExportCallbackEnds = False"

section \<open>Framing\<close>

text \<open>
  \<^verbatim>\<open>data_length.to_bytes(4, 'big')\<close>: four bytes, most significant first; Python raises
  \<^verbatim>\<open>OverflowError\<close> when the number does not fit.
\<close>

definition to_bytes_4_big :: "nat \<Rightarrow> exn + byte list" where
  "to_bytes_4_big n =
     (if n < 2 ^ 32
      then Inr [of_nat (n div 2 ^ 24), of_nat (n div 2 ^ 16), of_nat (n div 2 ^ 8), of_nat n]
      else Inl OverflowError)"

text \<open>The argument of \<^verbatim>\<open>sock.sendall\<close>: \<^verbatim>\<open>header + usdz_data\<close>.\<close>

definition frame_message :: "byte list \<Rightarrow> exn + byte list" where
  "frame_message usdz_data =
     (case to_bytes_4_big (length usdz_data) of
        Inl e \<Rightarrow> Inl e
      | Inr header \<Rightarrow> Inr (header @ usdz_data))"



section \<open>The streaming thread\<close>

text \<open>
  Status texts handed to \<^verbatim>\<open>status_message_realtime_update\<close> through a timer, with the
  values the source formats into them.
\<close>

datatype status =
    Streaming  \<comment> \<open>\<^verbatim>\<open>"Streaming..."\<close>\<close>
  | Idle real  \<comment> \<open>\<^verbatim>\<open>"Streaming (Idle: No activity for {idle_duration:.1f}s)"\<close>\<close>
  | ExportErrorMsg string  \<comment> \<open>\<^verbatim>\<open>"Export Error: {msg}"\<close>\<close>
  | ExportFailedTimedOut  \<comment> \<open>\<^verbatim>\<open>"USDZ export failed/timed out."\<close>\<close>
  | Sent nat nat  \<comment> \<open>\<^verbatim>\<open>"Sent {dl/1024:.2f} KB. FPS: {f}"\<close>\<close>
  | StreamingStopped  \<comment> \<open>\<^verbatim>\<open>"Streaming stopped."\<close>\<close>

text \<open>What the thread does to the outside, in order.\<close>

datatype event =
    Status status
  | Sleep real
  | MkTemp path
  | ExportScheduled path
  | SendAll "byte list"  \<comment> \<open>\<^verbatim>\<open>sendall\<close> returned: every byte was written\<close>
  | SendFailed "byte list" exn  \<comment> \<open>\<^verbatim>\<open>sendall\<close> raised\<close>
  | DisconnectRequested
  | RmTree path
  | RmTreeFailed path

text \<open>
  How the rendezvous with \<^verbatim>\<open>export_usdz_in_main_thread_cb\<close> ends: the callback read the
  exported file; it raised an error its \<^verbatim>\<open>except\<close> catches; it raised another one; or
  \<^verbatim>\<open>event.wait(timeout=5)\<close> ran out, the callback having begun or not.
\<close>

datatype export_outcome =
    Exported "byte list"
  | ExportRaised string
  | ExportUncaught
  | ExportTimeout bool

text \<open>
  The inputs of one loop iteration: what other threads do before its loop test and while
  the export runs, the scene properties it reads, the clock, and the results of the calls
  into the operating system and Blender.
\<close>

record iter_env =
  before :: "ext_event list"
  stream_only_when_active :: bool
  inactivity_threshold :: real
  current_time :: real
  mkdtemp :: "exn + path"
  export :: export_outcome
  during_export :: "ext_event list"
  fps :: nat  \<comment> \<open>\<^verbatim>\<open>bpy.context.scene.render.fps\<close>\<close>
  sendall :: "exn option"  \<comment> \<open>\<open>None\<close>: returned; \<open>Some e\<close>: raised \<open>e\<close>\<close>

text \<open>
  The callback sets \<^verbatim>\<open>is_exporting_usdz\<close>, exports, and resets the flag in its
  \<^verbatim>\<open>finally\<close>, where it also sets the event. The result is \<^verbatim>\<open>usdz_data\<close>,
  \<^verbatim>\<open>event.is_set()\<close>, the globals and the status the callback registered.
\<close>

fun run_export ::
  "export_outcome \<Rightarrow> ext_event list \<Rightarrow> state \<Rightarrow> byte list option \<times> bool \<times> state \<times> event list"
where
  "run_export (Exported d) evs g =
     (Some d, True, (apply_exts evs (g\<lparr>is_exporting_usdz := True\<rparr>))\<lparr>is_exporting_usdz := False\<rparr>, [])"
| "run_export (ExportRaised msg) evs g =
     (None, True, (apply_exts evs (g\<lparr>is_exporting_usdz := True\<rparr>))\<lparr>is_exporting_usdz := False\<rparr>,
      [Status (ExportErrorMsg msg)])"
| "run_export ExportUncaught evs g =
     (None, True, (apply_exts evs (g\<lparr>is_exporting_usdz := True\<rparr>))\<lparr>is_exporting_usdz := False\<rparr>, [])"
| "run_export (ExportTimeout begun) evs g =
     (None, False, apply_exts evs (if begun then g\<lparr>is_exporting_usdz := True\<rparr> else g), [])"

datatype flow = Next | Raise exn

record iter_result =
  flow :: flow  \<comment> \<open>on to the loop test, or an exception leaving the loop\<close>
  globals :: state
  temp_dir :: "path option"
  trace :: "event list"

text \<open>\<^verbatim>\<open>time.sleep(1 / fps)\<close>: the division raises when \<open>fps\<close> is zero.\<close>

definition sleep_frame :: "nat \<Rightarrow> exn + event" where
  "sleep_frame f = (if f = 0 then Inl ZeroDivisionError else Inr (Sleep (1 / real f)))"

text \<open>The body of the inner \<^verbatim>\<open>try\<close>, entered with the export lock held.\<close>

definition try_body :: "iter_env \<Rightarrow> state \<Rightarrow> path option \<Rightarrow> iter_result" where
  "try_body env g td =
     (case mkdtemp env of
        Inl e \<Rightarrow> \<lparr>flow = Raise e, globals = g, temp_dir = td, trace = []\<rparr>
      | Inr d \<Rightarrow>
          (case run_export (export env) (during_export env) g of
             (usdz_data, is_set, g1, cb) \<Rightarrow>
               let tr = [MkTemp d, ExportScheduled (d @ ''/scene_export.usdz'')] @ cb;
                   failed =
                     (case sleep_frame (fps env) of
                        Inl e \<Rightarrow>
                          \<lparr>flow = Raise e, globals = g1, temp_dir = Some d,
                           trace = tr @ [Status ExportFailedTimedOut]\<rparr>
                      | Inr sl \<Rightarrow>
                          \<lparr>flow = Next, globals = g1, temp_dir = Some d,
                           trace = tr @ [Status ExportFailedTimedOut, sl]\<rparr>)
               in
               (case usdz_data of
                  None \<Rightarrow> failed
                | Some dat \<Rightarrow>
                    if \<not> is_set then failed
                    else
                      (case frame_message dat of
                         Inl e \<Rightarrow> \<lparr>flow = Raise e, globals = g1, temp_dir = Some d, trace = tr\<rparr>
                       | Inr msg \<Rightarrow>
                           (case sendall env of
                              Some e \<Rightarrow>
                                \<lparr>flow = Raise e, globals = g1, temp_dir = Some d,
                                 trace = tr @ [SendFailed msg e]\<rparr>
                            | None \<Rightarrow>
                                (case sleep_frame (fps env) of
                                   Inl e \<Rightarrow>
                                     \<lparr>flow = Raise e, globals = g1, temp_dir = Some d,
                                      trace = tr @ [SendAll msg, Status (Sent (length dat) (fps env))]\<rparr>
                                 | Inr sl \<Rightarrow>
                                     \<lparr>flow = Next, globals = g1, temp_dir = Some d,
                                      trace =
                                        tr @ [SendAll msg, Status (Sent (length dat) (fps env)), sl]\<rparr>))))))"

text \<open>
  The inner \<^verbatim>\<open>finally\<close>: release the lock, then test the pending flag. Its
  \<^verbatim>\<open>continue\<close> leaves the \<^verbatim>\<open>finally\<close> block, so Python drops an exception that was on
  its way out.
\<close>

definition finally_release :: "iter_result \<Rightarrow> iter_result" where
  "finally_release r =
     (let g = (globals r)\<lparr>export_lock := False\<rparr> in
      if pending_changes_during_export g
      then r\<lparr>flow := Next, globals := g\<lparr>pending_changes_during_export := False\<rparr>\<rparr>
      else r\<lparr>globals := g\<rparr>)"

text \<open>One pass through the body of the \<^verbatim>\<open>while\<close> loop.\<close>

definition stream_iteration :: "iter_env \<Rightarrow> state \<Rightarrow> path option \<Rightarrow> iter_result" where
  "stream_iteration env g td =
     (let idle_duration = current_time env - last_model_change_time g;
          is_active = (idle_duration < inactivity_threshold env)
      in
      if stream_only_when_active env \<and> \<not> is_active
      then \<lparr>flow = Next, globals = g, temp_dir = td, trace = [Status (Idle idle_duration), Sleep 0.5]\<rparr>
      else if export_lock g
      then \<lparr>flow = Next, globals = g, temp_dir = td, trace = []\<rparr>
      else finally_release (try_body env (g\<lparr>export_lock := True\<rparr>) td))"

text \<open>
  The loop runs over a schedule, one \<open>iter_env\<close> per loop test. A schedule that ends
  before the loop does gives \<open>Unfinished\<close>.
\<close>

datatype loop_exit = Stopped | Raised exn | Unfinished

record loop_result =
  exit :: loop_exit
  final_globals :: state
  final_temp_dir :: "path option"
  loop_trace :: "event list"

fun stream_loop :: "iter_env list \<Rightarrow> state \<Rightarrow> path option \<Rightarrow> loop_result" where
  "stream_loop [] g td =
     \<lparr>exit = Unfinished, final_globals = g, final_temp_dir = td, loop_trace = []\<rparr>"
| "stream_loop (env # envs) g td =
     (let g0 = apply_exts (before env) g in
      if stop_streaming_event g0
      then \<lparr>exit = Stopped, final_globals = g0, final_temp_dir = td, loop_trace = []\<rparr>
      else
        let r = stream_iteration env g0 td in
        (case flow r of
           Raise e \<Rightarrow>
             \<lparr>exit = Raised e, final_globals = globals r, final_temp_dir = temp_dir r,
              loop_trace = trace r\<rparr>
         | Next \<Rightarrow>
             (let l = stream_loop envs (globals r) (temp_dir r)
              in l\<lparr>loop_trace := trace r @ loop_trace l\<rparr>)))"

text \<open>
  The three \<^verbatim>\<open>except\<close> clauses around the loop, in the source's order; each requests a
  disconnect and sets the stop event.
\<close>

fun handled :: "exn \<Rightarrow> bool" where
  "handled BrokenPipeError = True"
| "handled ConnectionResetError = True"
| "handled ConnectionAbortedError = True"
| "handled OSError = True"
| "handled RuntimeError = True"
| "handled OverflowError = False"
| "handled ZeroDivisionError = False"

text \<open>The outer \<^verbatim>\<open>finally\<close>: only the directory \<^verbatim>\<open>temp_dir\<close> names at that point.\<close>

definition cleanup :: "bool \<Rightarrow> path option \<Rightarrow> event list" where
  "cleanup rmtree_ok td =
     (case td of
        None \<Rightarrow> []
      | Some d \<Rightarrow> if rmtree_ok then [RmTree d] else [RmTreeFailed d])"

record thread_result =
  end_globals :: state
  events :: "event list"
  uncaught :: "exn option"  \<comment> \<open>an exception that leaves \<^verbatim>\<open>stream_scene_data\<close>\<close>

text \<open>
  \<^verbatim>\<open>stream_scene_data(sock, stop_event)\<close>. \<open>None\<close>: the loop is still running when the
  schedule ends.
\<close>

definition stream_scene_data :: "bool \<Rightarrow> iter_env list \<Rightarrow> state \<Rightarrow> thread_result option" where
  "stream_scene_data rmtree_ok envs g =
     (let l = stream_loop envs g None in
      case exit l of
        Unfinished \<Rightarrow> None
      | Stopped \<Rightarrow>
          Some \<lparr>end_globals = (final_globals l)\<lparr>streaming_thread := Some False\<rparr>,
                events = [Status Streaming] @ loop_trace l @ cleanup rmtree_ok (final_temp_dir l)
                         @ [Status StreamingStopped],
                uncaught = None\<rparr>
      | Raised e \<Rightarrow>
          if handled e
          then Some \<lparr>end_globals =
                       (final_globals l)\<lparr>stop_streaming_event := True, streaming_thread := Some False\<rparr>,
                     events = [Status Streaming] @ loop_trace l @ [DisconnectRequested]
                              @ cleanup rmtree_ok (final_temp_dir l) @ [Status StreamingStopped],
                     uncaught = None\<rparr>
          else Some \<lparr>end_globals = (final_globals l)\<lparr>streaming_thread := Some False\<rparr>,
                     events = [Status Streaming] @ loop_trace l @ cleanup rmtree_ok (final_temp_dir l),
                     uncaught = Some e\<rparr>)"

text \<open>Observations on a trace.\<close>

fun is_send :: "event \<Rightarrow> bool" where
  "is_send (SendAll bs) = True"
| "is_send (SendFailed bs e) = True"
| "is_send _ = False"

fun is_export :: "event \<Rightarrow> bool" where
  "is_export (ExportScheduled p) = True"
| "is_export _ = False"

fun created :: "event list \<Rightarrow> path list" where
  "created [] = []"
| "created (MkTemp d # es) = d # created es"
| "created (e # es) = created es"

fun removed :: "event list \<Rightarrow> path list" where
  "removed [] = []"
| "removed (RmTree d # es) = d # removed es"
| "removed (e # es) = removed es"

definition leftover :: "event list \<Rightarrow> path list" where
  "leftover tr = filter (\<lambda>d. d \<notin> set (removed tr)) (created tr)"

section \<open>Operators\<close>

text \<open>
  Blender runs an operator's \<^verbatim>\<open>execute\<close> only when its \<^verbatim>\<open>poll\<close> returns true: a button
  whose poll fails is greyed out, and \<^verbatim>\<open>bpy.ops\<close> refuses the call. \<open>POLL_FAILED\<close> is
  that refusal; the other two are the sets \<^verbatim>\<open>execute\<close> returns.
\<close>

datatype op_result = FINISHED | CANCELLED | POLL_FAILED

definition invoke ::
  "(state \<Rightarrow> bool) \<Rightarrow> (state \<Rightarrow> op_result \<times> state) \<Rightarrow> state \<Rightarrow> op_result \<times> state" where
  "invoke poll execute g = (if poll g then execute g else (POLL_FAILED, g))"

subsection \<open>\<^verbatim>\<open>VSP_OT_ConnectToVisionPro\<close>\<close>

definition connect_poll :: "string \<Rightarrow> state \<Rightarrow> bool" where
  "connect_poll selected_device_name g =
     (selected_device_name \<noteq> [] \<and> selected_device_name \<in> dom (vision_pro_devices g)
      \<and> current_connection g = None)"

text \<open>
  \<^verbatim>\<open>target_host\<close> of \<^verbatim>\<open>execute\<close>: the first address if there is one, else the host name.
\<close>

definition target_host :: "device_info \<Rightarrow> string" where
  "target_host device = (case addresses device of [] \<Rightarrow> host device | a # _ \<Rightarrow> a)"

text \<open>
  \<open>connect_result\<close> is how \<^verbatim>\<open>s.connect((target_host, target_port))\<close> ends for a given
  address: with a new connected socket, or with \<^verbatim>\<open>socket.error\<close>.
\<close>

definition connect_execute ::
  "string \<Rightarrow> (string \<Rightarrow> nat \<Rightarrow> exn + sock) \<Rightarrow> state \<Rightarrow> op_result \<times> state" where
  "connect_execute device_full_name connect_result g =
     (case vision_pro_devices g device_full_name of
        None \<Rightarrow> (CANCELLED, g)
      | Some device \<Rightarrow>
          (case connect_result (target_host device) (port device) of
             Inr s \<Rightarrow> (FINISHED, g\<lparr>current_connection := Some s, open_sockets := s # open_sockets g\<rparr>)
           | Inl e \<Rightarrow> (CANCELLED, g\<lparr>current_connection := None\<rparr>)))"

definition invoke_connect ::
  "string \<Rightarrow> (string \<Rightarrow> nat \<Rightarrow> exn + sock) \<Rightarrow> state \<Rightarrow> op_result \<times> state" where
  "invoke_connect name connect_result =
     invoke (connect_poll name) (connect_execute name connect_result)"

subsection \<open>\<^verbatim>\<open>VSP_OT_DisconnectVisionPro\<close>\<close>

definition disconnect_poll :: "state \<Rightarrow> bool" where
  "disconnect_poll g = (current_connection g \<noteq> None)"

text \<open>
  If the streaming thread is alive it is told to stop and waited for with
  \<^verbatim>\<open>join(timeout=2)\<close>; whether or not it ended in time, the thread is forgotten and the
  stop event cleared. Then the socket is shut down and closed, errors of both ignored.
\<close>

definition disconnect_execute :: "state \<Rightarrow> op_result \<times> state" where
  "disconnect_execute g =
     (let g1 =
            (if streaming_thread g = Some True
             then g\<lparr>streaming_thread := None, stop_streaming_event := False, is_streaming := False\<rparr>
             else g)
      in case current_connection g1 of
           None \<Rightarrow> (FINISHED, g1)
         | Some c \<Rightarrow>
             (FINISHED, g1\<lparr>current_connection := None, open_sockets := removeAll c (open_sockets g1)\<rparr>))"

definition invoke_disconnect :: "state \<Rightarrow> op_result \<times> state" where
  "invoke_disconnect = invoke disconnect_poll disconnect_execute"

subsection \<open>\<^verbatim>\<open>VSP_OT_StartStreaming\<close>\<close>

definition start_streaming_poll :: "state \<Rightarrow> bool" where
  "start_streaming_poll g =
     (current_connection g \<noteq> None \<and> (streaming_thread g = None \<or> streaming_thread g = Some False))"

text \<open>
  \<open>active\<close> is the scene property \<^verbatim>\<open>stream_only_when_active\<close>, \<open>now\<close> the clock. The last
  update stands for \<^verbatim>\<open>streaming_thread.start()\<close>: the thread then runs
  \<^verbatim>\<open>stream_scene_data\<close> from the returned globals.
\<close>

definition start_streaming_execute :: "bool \<Rightarrow> real \<Rightarrow> state \<Rightarrow> op_result \<times> state" where
  "start_streaming_execute active now g =
     (let g1 = g\<lparr>is_streaming := True, stop_streaming_event := False\<rparr> in
      if current_connection g1 = None then (CANCELLED, g1)
      else if streaming_thread g1 = Some True then (CANCELLED, g1)
      else
        let g2 = (if active then g1\<lparr>last_model_change_time := now\<rparr> else g1)
        in (FINISHED, g2\<lparr>streaming_thread := Some True\<rparr>))"

definition invoke_start_streaming :: "bool \<Rightarrow> real \<Rightarrow> state \<Rightarrow> op_result \<times> state" where
  "invoke_start_streaming active now = invoke start_streaming_poll (start_streaming_execute active now)"

text \<open>
  A streaming session: the Start operator, then the thread it launched run over a
  schedule. \<open>None\<close> when the operator did not launch a thread or the schedule ends
  before the thread does.
\<close>

definition streaming_session ::
  "bool \<Rightarrow> real \<Rightarrow> bool \<Rightarrow> iter_env list \<Rightarrow> state \<Rightarrow> thread_result option" where
  "streaming_session active now rmtree_ok envs g =
     (case invoke_start_streaming active now g of
        (FINISHED, g1) \<Rightarrow> stream_scene_data rmtree_ok envs g1
      | (CANCELLED, g1) \<Rightarrow> None
      | (POLL_FAILED, g1) \<Rightarrow> None)"

text \<open>
  The connection operators as a transition system, for what holds of every state the
  add-on can reach from its initial one.
\<close>

datatype conn_op =
    ServiceAdded string device_info
  | ServiceRemoved string
  | Connect string "string \<Rightarrow> nat \<Rightarrow> exn + sock"
  | Disconnect

fun conn_step :: "conn_op \<Rightarrow> state \<Rightarrow> state" where
  "conn_step (ServiceAdded name device) g =
     g\<lparr>vision_pro_devices := (vision_pro_devices g)(name \<mapsto> device)\<rparr>"
| "conn_step (ServiceRemoved name) g =
     g\<lparr>vision_pro_devices := (vision_pro_devices g)(name := None)\<rparr>"
| "conn_step (Connect name r) g = snd (invoke_connect name r g)"
| "conn_step Disconnect g = snd (invoke_disconnect g)"

fun conn_run :: "conn_op list \<Rightarrow> state \<Rightarrow> state" where
  "conn_run [] g = g"
| "conn_run (x # xs) g = conn_run xs (conn_step x g)"

section \<open>Example inputs\<close>

text \<open>
  A state with one device discovered and connected, and the inputs of an iteration in
  which nothing else happens, the export yields three bytes and the send returns.
\<close>

definition connected_state :: state where
  "connected_state =
     initial_state
       \<lparr>vision_pro_devices :=
          [''Vision._visionpro_blender._tcp.local.'' \<mapsto>
             \<lparr>host = ''vision.local.'', port = 5000, addresses = [''10.0.0.7'']\<rparr>],
        current_connection := Some 1, open_sockets := [1]\<rparr>"

definition quiet_env :: iter_env where
  "quiet_env =
     \<lparr>before = [], stream_only_when_active = True, inactivity_threshold = 2,
      current_time = 100, mkdtemp = Inr ''/tmp/blender_vppro_a'', export = Exported [1, 2, 3],
      during_export = [], fps = 30, sendall = None\<rparr>"

definition stop_env :: iter_env where
  "stop_env = quiet_env\<lparr>before := [StopStreamingPressed]\<rparr>"

text \<open>Properties of a whole schedule, and of the events before a loop test.\<close>

fun is_stop :: "ext_event \<Rightarrow> bool" where
  "is_stop StopStreamingPressed = True"
| "is_stop (DepsgraphUpdate t) = False"
| "is_stop ExportCallbackEnds = False"

definition no_change_recorded :: "iter_env list \<Rightarrow> bool" where
  "no_change_recorded envs =
     list_all (\<lambda>env. \<not> list_ex is_change (before env @ during_export env)) envs"

definition only_when_active :: "iter_env list \<Rightarrow> bool" where
  "only_when_active envs = list_all stream_only_when_active envs"



text \<open>
  Variations: the activity gate switched off; a second cycle, with its own scratch
  directory; the user editing the scene while the export runs; and the peer resetting
  the connection during the send of such a cycle.
\<close>

definition free_env :: iter_env where
  "free_env = quiet_env\<lparr>stream_only_when_active := False\<rparr>"

definition second_env :: iter_env where
  "second_env = free_env\<lparr>mkdtemp := Inr ''/tmp/blender_vppro_b''\<rparr>"

definition edited_env :: iter_env where
  "edited_env = free_env\<lparr>during_export := [DepsgraphUpdate 100]\<rparr>"

definition reset_env :: iter_env where
  "reset_env = edited_env\<lparr>sendall := Some ConnectionResetError\<rparr>"

text \<open>At most one socket is open, and it is the one \<^verbatim>\<open>current_connection\<close> holds.\<close>

definition single_connection :: "state \<Rightarrow> bool" where
  "single_connection g =
     (open_sockets g = (case current_connection g of None \<Rightarrow> [] | Some c \<Rightarrow> [c]))"

text \<open>
  The globals and \<^verbatim>\<open>temp_dir\<close> with which the loop arrives at its next loop test after
  running a whole schedule; \<open>None\<close> when the loop has ended within the schedule.
\<close>

fun loop_reaches :: "iter_env list \<Rightarrow> state \<Rightarrow> path option \<Rightarrow> (state \<times> path option) option" where
  "loop_reaches [] g td = Some (g, td)"
| "loop_reaches (env # envs) g td =
     (let g0 = apply_exts (before env) g in
      if stop_streaming_event g0 then None
      else
        let r = stream_iteration env g0 td in
        (case flow r of
           Raise e \<Rightarrow> None
         | Next \<Rightarrow> loop_reaches envs (globals r) (temp_dir r)))"

section \<open>The handler records a change\<close>

text \<open>
  C1. Every call of \<^verbatim>\<open>depsgraph_handler_update_time\<close> at clock reading \<open>now\<close>: when
  \<^verbatim>\<open>is_exporting_usdz\<close> is false it sets \<^verbatim>\<open>last_model_change_time\<close> to \<open>now\<close> and leaves
  \<^verbatim>\<open>pending_changes_during_export\<close> as it was; when the flag is true it sets
  \<^verbatim>\<open>pending_changes_during_export\<close> and leaves \<^verbatim>\<open>last_model_change_time\<close> as it was.
\<close>

theorem record_change:
  "(\<not> is_exporting_usdz g \<longrightarrow>
      last_model_change_time (depsgraph_handler_update_time now g) = now
      \<and> pending_changes_during_export (depsgraph_handler_update_time now g)
          = pending_changes_during_export g)
   \<and> (is_exporting_usdz g \<longrightarrow>
      pending_changes_during_export (depsgraph_handler_update_time now g)
      \<and> last_model_change_time (depsgraph_handler_update_time now g)
          = last_model_change_time g)"
  by (simp add: depsgraph_handler_update_time_def)

theorem record_change_witness:
  "last_model_change_time (depsgraph_handler_update_time 5 initial_state) = 5
   \<and> \<not> pending_changes_during_export (depsgraph_handler_update_time 5 initial_state)
   \<and> pending_changes_during_export
        (depsgraph_handler_update_time 5 (initial_state\<lparr>is_exporting_usdz := True\<rparr>))
   \<and> last_model_change_time
        (depsgraph_handler_update_time 5 (initial_state\<lparr>is_exporting_usdz := True\<rparr>)) = 0"
  using record_change [of initial_state 5]
    record_change [of "initial_state\<lparr>is_exporting_usdz := True\<rparr>" 5]
  by (simp add: initial_state_def)

section \<open>Framing\<close>





lemma frame_message_fits: "length P < 2 ^ 32 \<Longrightarrow> \<exists>bs. frame_message P = Inr bs"
  by (simp add: frame_message_def to_bytes_4_big_def)


lemma trace_finally_release [simp]: "trace (finally_release r) = trace r"
  by (simp add: finally_release_def Let_def)





section \<open>The activity gate\<close>

lemma apply_ext_export_lock [simp]: "export_lock (apply_ext e g) = export_lock g"
  by (cases e) (simp_all add: depsgraph_handler_update_time_def)

lemma apply_exts_export_lock [simp]: "export_lock (apply_exts evs g) = export_lock g"
  by (induction evs arbitrary: g) simp_all

lemma export_lock_finally_release [simp]: "\<not> export_lock (globals (finally_release r))"
  by (simp add: finally_release_def Let_def)

text \<open>
  The streaming thread is the only one to take the export lock, and it holds it inside an
  iteration only: an iteration entered with the lock free leaves it free.
\<close>

lemma export_lock_stream_iteration:
  "\<not> export_lock g \<Longrightarrow> \<not> export_lock (globals (stream_iteration env g td))"
  by (simp add: stream_iteration_def Let_def)

text \<open>
  C3. In an iteration with \<^verbatim>\<open>stream_only_when_active\<close> set: if the idle duration
  \<open>current_time - last_model_change_time\<close> has reached \<^verbatim>\<open>inactivity_threshold\<close>, the
  iteration does nothing but register the idle status and sleep 0.5 seconds, changes no
  global and goes on to the next loop test (no export, no send, no exception). Otherwise
  it goes on to the export: with the export lock free, as the streaming thread finds it,
  it runs the locked \<^verbatim>\<open>try\<close> block, which schedules the export callback once the
  scratch directory is made.
\<close>

theorem activity_gate:
  assumes "stream_only_when_active env"
  shows "(inactivity_threshold env \<le> current_time env - last_model_change_time g \<longrightarrow>
            stream_iteration env g td =
              \<lparr>flow = Next, globals = g, temp_dir = td,
               trace = [Status (Idle (current_time env - last_model_change_time g)), Sleep 0.5]\<rparr>)
         \<and> (current_time env - last_model_change_time g < inactivity_threshold env \<longrightarrow>
              \<not> export_lock g \<longrightarrow>
              stream_iteration env g td = finally_release (try_body env (g\<lparr>export_lock := True\<rparr>) td)
              \<and> (\<forall>d. mkdtemp env = Inr d \<longrightarrow>
                     ExportScheduled (d @ ''/scene_export.usdz'')
                       \<in> set (trace (stream_iteration env g td))))"
proof (intro conjI impI allI)
  assume "inactivity_threshold env \<le> current_time env - last_model_change_time g"
  with assms show "stream_iteration env g td =
              \<lparr>flow = Next, globals = g, temp_dir = td,
               trace = [Status (Idle (current_time env - last_model_change_time g)), Sleep 0.5]\<rparr>"
    by (simp add: stream_iteration_def Let_def)
next
  assume a: "current_time env - last_model_change_time g < inactivity_threshold env"
    "\<not> export_lock g"
  then show eq: "stream_iteration env g td = finally_release (try_body env (g\<lparr>export_lock := True\<rparr>) td)"
    by (simp add: stream_iteration_def Let_def)
  fix d assume "mkdtemp env = Inr d"
  then show "ExportScheduled (d @ ''/scene_export.usdz'') \<in> set (trace (stream_iteration env g td))"
    unfolding eq
    by (cases "export env")
       (auto simp: try_body_def Let_def sleep_frame_def split: sum.splits option.splits)
qed

theorem activity_gate_witness:
  "stream_only_when_active quiet_env
   \<and> stream_iteration quiet_env connected_state None =
       \<lparr>flow = Next, globals = connected_state, temp_dir = None,
        trace = [Status (Idle 100), Sleep 0.5]\<rparr>
   \<and> ExportScheduled ''/tmp/blender_vppro_a/scene_export.usdz''
       \<in> set (trace (stream_iteration quiet_env (connected_state\<lparr>last_model_change_time := 99\<rparr>) None))"
proof -
  have a: "stream_only_when_active quiet_env" by (simp add: quiet_env_def)
  have 1: "inactivity_threshold quiet_env \<le> current_time quiet_env - last_model_change_time connected_state"
    by (simp add: quiet_env_def connected_state_def initial_state_def)
  have 2: "current_time quiet_env - last_model_change_time (connected_state\<lparr>last_model_change_time := 99\<rparr>)
             < inactivity_threshold quiet_env"
    "\<not> export_lock (connected_state\<lparr>last_model_change_time := 99\<rparr>)"
    "mkdtemp quiet_env = Inr ''/tmp/blender_vppro_a''"
    by (simp_all add: quiet_env_def connected_state_def initial_state_def)
  have 3: "current_time quiet_env - last_model_change_time connected_state = 100"
    by (simp add: quiet_env_def connected_state_def initial_state_def)
  note g1 = activity_gate [OF a, of connected_state None, THEN conjunct1, rule_format, OF 1]
  note g2 = activity_gate [OF a, of "connected_state\<lparr>last_model_change_time := 99\<rparr>" None,
      THEN conjunct2, rule_format, OF 2(1) 2(2), THEN conjunct2, rule_format, OF 2(3)]
  from g1 3 have A: "stream_iteration quiet_env connected_state None =
       \<lparr>flow = Next, globals = connected_state, temp_dir = None,
        trace = [Status (Idle 100), Sleep 0.5]\<rparr>" by simp
  from g2 have B: "ExportScheduled ''/tmp/blender_vppro_a/scene_export.usdz''
       \<in> set (trace (stream_iteration quiet_env (connected_state\<lparr>last_model_change_time := 99\<rparr>) None))"
    by simp
  from a A B show ?thesis by blast
qed

section \<open>Export failures\<close>

lemmas iteration_defs =
  stream_iteration_def try_body_def finally_release_def sleep_frame_def frame_message_def
  to_bytes_4_big_def Let_def

lemmas example_defs = quiet_env_def stop_env_def connected_state_def initial_state_def



lemma temp_dir_finally_release [simp]: "temp_dir (finally_release r) = temp_dir r"
  by (simp add: finally_release_def Let_def)



section \<open>The inner \<^verbatim>\<open>finally\<close> block\<close>

lemmas variation_defs = free_env_def second_env_def edited_env_def reset_env_def

lemmas thread_defs = stream_scene_data_def cleanup_def depsgraph_handler_update_time_def

text \<open>
  Whatever happens during the export, an iteration whose send returned has slept
  \<open>1 / fps\<close> seconds before it ends.
\<close>

lemma successful_send_has_slept:
  assumes "SendAll bs \<in> set (trace (stream_iteration env g td))" and "0 < fps env"
  shows "Sleep (1 / real (fps env)) \<in> set (trace (stream_iteration env g td))"
proof -
  have "SendAll bs \<in> set (trace (try_body env g' td)) \<Longrightarrow>
          Sleep (1 / real (fps env)) \<in> set (trace (try_body env g' td))" for g'
    using assms(2)
    by (cases "export env")
       (auto simp: try_body_def Let_def sleep_frame_def split: sum.splits option.splits if_splits)
  with assms(1) show ?thesis
    by (auto simp: stream_iteration_def Let_def split: if_splits)
qed

text \<open>
  C5 says that an iteration whose export saw a change clears
  \<^verbatim>\<open>pending_changes_during_export\<close> after releasing the lock and starts the next iteration
  at once, without the \<open>1 / fps\<close> sleep of a successful send. The flag is cleared, but the
  sleep is inside the \<^verbatim>\<open>try\<close> block, before the \<^verbatim>\<open>finally\<close> that tests the flag: with a
  change during the export and a successful send, the iteration has slept \<open>1 / 30\<close>
  seconds when the \<^verbatim>\<open>continue\<close> of the \<^verbatim>\<open>finally\<close> runs, and its events are those of the
  same iteration without the change.
\<close>

theorem pending_change_sleeps_first:
  "pending_changes_during_export
     (globals (try_body edited_env (connected_state\<lparr>export_lock := True\<rparr>) None))
   \<and> stream_iteration edited_env connected_state None =
       \<lparr>flow = Next, globals = connected_state, temp_dir = Some ''/tmp/blender_vppro_a'',
        trace = [MkTemp ''/tmp/blender_vppro_a'',
                 ExportScheduled ''/tmp/blender_vppro_a/scene_export.usdz'',
                 SendAll [0, 0, 0, 3, 1, 2, 3], Status (Sent 3 30), Sleep (1 / 30)]\<rparr>
   \<and> trace (stream_iteration edited_env connected_state None)
       = trace (stream_iteration free_env connected_state None)"
  by (simp add: iteration_defs example_defs variation_defs depsgraph_handler_update_time_def)

text \<open>
  With no change recorded during the export, a socket error of the send does reach the
  handlers around the loop: the thread requests one disconnect, sets the stop event,
  removes the scratch directory and returns, whatever the schedule holds next.
\<close>

lemma pending_apply_ext:
  "\<not> is_change e \<Longrightarrow>
     pending_changes_during_export (apply_ext e g) = pending_changes_during_export g"
  by (cases e) simp_all

lemma pending_apply_exts:
  "\<not> list_ex is_change evs \<Longrightarrow>
     pending_changes_during_export (apply_exts evs g) = pending_changes_during_export g"
  by (induction evs arbitrary: g) (simp_all add: pending_apply_ext)

lemma send_error_fatal_without_change:
  assumes g0: "g0 = apply_exts (before env) g"
    and running: "\<not> stop_streaming_event g0"
    and gate: "\<not> stream_only_when_active env
               \<or> current_time env - last_model_change_time g0 < inactivity_threshold env"
    and lock: "\<not> export_lock g0"
    and nopending: "\<not> pending_changes_during_export g0"
    and quiet: "\<not> list_ex is_change (during_export env)"
    and dir: "mkdtemp env = Inr d"
    and ex: "export env = Exported P"
    and msg: "frame_message P = Inr bs"
    and err: "sendall env = Some e"
    and h: "handled e"
  shows "\<exists>r. stream_scene_data rmtree_ok (env # envs) g = Some r
           \<and> stop_streaming_event (end_globals r) \<and> uncaught r = None
           \<and> events r =
               [Status Streaming, MkTemp d, ExportScheduled (d @ ''/scene_export.usdz''),
                SendFailed bs e, DisconnectRequested]
               @ cleanup rmtree_ok (Some d) @ [Status StreamingStopped]"
proof -
  let ?tb = "try_body env (g0\<lparr>export_lock := True\<rparr>) None"
  from dir ex msg err have tb: "flow ?tb = Raise e" "temp_dir ?tb = Some d"
    "trace ?tb = [MkTemp d, ExportScheduled (d @ ''/scene_export.usdz''), SendFailed bs e]"
    "globals ?tb = (apply_exts (during_export env) (g0\<lparr>export_lock := True, is_exporting_usdz := True\<rparr>))
                     \<lparr>is_exporting_usdz := False\<rparr>"
    by (simp_all add: try_body_def)
  from nopending quiet have np: "\<not> pending_changes_during_export (globals ?tb)"
    by (simp add: tb(4) pending_apply_exts)
  from gate lock have it: "stream_iteration env g0 None = finally_release ?tb"
    by (auto simp: stream_iteration_def Let_def)
  from np tb have fr: "flow (finally_release ?tb) = Raise e"
    "temp_dir (finally_release ?tb) = Some d"
    "trace (finally_release ?tb)
       = [MkTemp d, ExportScheduled (d @ ''/scene_export.usdz''), SendFailed bs e]"
    by (simp_all add: finally_release_def Let_def)
  from running it fr h show ?thesis
    unfolding g0 by (simp add: stream_scene_data_def Let_def)
qed

text \<open>
  C7 says that a socket error during a send ends the loop with one disconnect request.
  When a change was recorded during that iteration's export, the \<^verbatim>\<open>continue\<close> in the
  \<^verbatim>\<open>finally\<close> block discards the exception \<^verbatim>\<open>raise\<close> had sent on its way: the iteration
  ends like any other, the loop exports and sends again, no disconnect is requested, and
  the thread runs until the stop event is set.
\<close>

theorem send_error_swallowed:
  "flow (stream_iteration reset_env connected_state None) = Next
   \<and> map_option events (stream_scene_data True [reset_env, second_env, stop_env] connected_state)
       = Some [Status Streaming,
               MkTemp ''/tmp/blender_vppro_a'',
               ExportScheduled ''/tmp/blender_vppro_a/scene_export.usdz'',
               SendFailed [0, 0, 0, 3, 1, 2, 3] ConnectionResetError,
               MkTemp ''/tmp/blender_vppro_b'',
               ExportScheduled ''/tmp/blender_vppro_b/scene_export.usdz'',
               SendAll [0, 0, 0, 3, 1, 2, 3], Status (Sent 3 30), Sleep (1 / 30),
               RmTree ''/tmp/blender_vppro_b'', Status StreamingStopped]"
  by (simp add: iteration_defs example_defs variation_defs thread_defs)

section \<open>Scratch directories\<close>

text \<open>
  No iteration removes a directory, and the outer \<^verbatim>\<open>finally\<close> removes at most one.
\<close>

lemma removed_append: "removed (xs @ ys) = removed xs @ removed ys"
  by (induction xs rule: removed.induct) simp_all

lemma removed_try_body: "removed (trace (try_body env g td)) = []"
  by (cases "export env")
     (auto simp: try_body_def Let_def sleep_frame_def removed_append
        split: sum.splits option.splits)

lemma removed_stream_iteration: "removed (trace (stream_iteration env g td)) = []"
  by (simp add: stream_iteration_def Let_def removed_try_body)

lemma removed_stream_loop: "removed (loop_trace (stream_loop envs g td)) = []"
  by (induction envs arbitrary: g td)
     (simp_all add: Let_def removed_append removed_stream_iteration split: flow.splits)

lemma at_most_one_directory_removed:
  "stream_scene_data rmtree_ok envs g = Some r \<Longrightarrow> length (removed (events r)) \<le> 1"
  by (auto simp: stream_scene_data_def Let_def cleanup_def removed_append removed_stream_loop
      split: loop_exit.splits if_splits option.splits)

text \<open>
  C9 says that every scratch directory the loop made is gone when it exits. Each exporting
  iteration overwrites \<^verbatim>\<open>temp_dir\<close> with a new directory, and the only \<^verbatim>\<open>shutil.rmtree\<close>
  is in the outer \<^verbatim>\<open>finally\<close>, on the directory \<^verbatim>\<open>temp_dir\<close> names then: after two cycles
  and a stop, the directory of the first cycle is still there.
\<close>

theorem earlier_scratch_directory_left:
  "map_option events (stream_scene_data True [free_env, second_env, stop_env] connected_state)
     = Some [Status Streaming,
             MkTemp ''/tmp/blender_vppro_a'',
             ExportScheduled ''/tmp/blender_vppro_a/scene_export.usdz'',
             SendAll [0, 0, 0, 3, 1, 2, 3], Status (Sent 3 30), Sleep (1 / 30),
             MkTemp ''/tmp/blender_vppro_b'',
             ExportScheduled ''/tmp/blender_vppro_b/scene_export.usdz'',
             SendAll [0, 0, 0, 3, 1, 2, 3], Status (Sent 3 30), Sleep (1 / 30),
             RmTree ''/tmp/blender_vppro_b'', Status StreamingStopped]
   \<and> map_option (\<lambda>r. leftover (events r))
         (stream_scene_data True [free_env, second_env, stop_env] connected_state)
       = Some [''/tmp/blender_vppro_a'']"
  by (simp add: iteration_defs example_defs variation_defs thread_defs leftover_def)

section \<open>Sessions in which nothing changes\<close>

lemma apply_ext_quiet:
  "\<not> is_change e \<Longrightarrow> last_model_change_time (apply_ext e g) = last_model_change_time g"
  by (cases e) simp_all

lemma apply_exts_quiet:
  "\<not> list_ex is_change evs \<Longrightarrow>
     last_model_change_time (apply_exts evs g) = last_model_change_time g"
  by (induction evs arbitrary: g) (simp_all add: apply_ext_quiet)

lemma apply_ext_stop:
  "stop_streaming_event (apply_ext e g) = (stop_streaming_event g \<or> is_stop e)"
  by (cases e) (simp_all add: depsgraph_handler_update_time_def)

lemma apply_exts_stop:
  "stop_streaming_event (apply_exts evs g) = (stop_streaming_event g \<or> list_ex is_stop evs)"
  by (induction evs arbitrary: g) (auto simp: apply_ext_stop)

lemma invoke_start_streaming_FINISHED:
  assumes "invoke_start_streaming active now g0 = (FINISHED, g)"
  shows "g = (if active then g0\<lparr>is_streaming := True, stop_streaming_event := False,
                                last_model_change_time := now, streaming_thread := Some True\<rparr>
              else g0\<lparr>is_streaming := True, stop_streaming_event := False,
                      streaming_thread := Some True\<rparr>)"
  using assms
  by (auto simp: invoke_start_streaming_def invoke_def start_streaming_execute_def Let_def
      split: if_splits)

text \<open>
  Only the handler writes \<^verbatim>\<open>last_model_change_time\<close> while the thread runs: an iteration
  during whose export no change is recorded leaves it as it was, also when it exports and
  sends, and so does any part of a schedule in which no change is recorded.
\<close>

lemma last_time_run_export:
  assumes "\<not> list_ex is_change evs"
    and "run_export out evs g = (usdz_data, is_set, g1, cb)"
  shows "last_model_change_time g1 = last_model_change_time g"
  using assms by (cases out) (auto simp: apply_exts_quiet)

lemma last_time_try_body:
  assumes "\<not> list_ex is_change (during_export env)"
  shows "last_model_change_time (globals (try_body env g td)) = last_model_change_time g"
proof (cases "mkdtemp env")
  case (Inl e)
  then show ?thesis by (simp add: try_body_def)
next
  case (Inr d)
  obtain usdz_data is_set g1 cb
    where r: "run_export (export env) (during_export env) g = (usdz_data, is_set, g1, cb)"
    by (cases "run_export (export env) (during_export env) g") auto
  from last_time_run_export [OF assms r] Inr r show ?thesis
    by (simp add: try_body_def Let_def split: sum.splits option.splits)
qed

lemma last_time_finally_release [simp]:
  "last_model_change_time (globals (finally_release r)) = last_model_change_time (globals r)"
  by (simp add: finally_release_def Let_def)

lemma last_time_stream_iteration:
  assumes "\<not> list_ex is_change (during_export env)"
  shows "last_model_change_time (globals (stream_iteration env g td)) = last_model_change_time g"
  using last_time_try_body [OF assms, of "g\<lparr>export_lock := True\<rparr>" td]
  by (simp add: stream_iteration_def Let_def)

lemma loop_reaches_last_time:
  assumes "no_change_recorded pre" and "loop_reaches pre g td = Some (g', td')"
  shows "last_model_change_time g' = last_model_change_time g"
  using assms
proof (induction pre arbitrary: g td)
  case Nil
  then show ?case by simp
next
  case (Cons env pre)
  let ?g0 = "apply_exts (before env) g"
  let ?r = "stream_iteration env ?g0 td"
  from Cons.prems(1) have q: "\<not> list_ex is_change (before env)"
    "\<not> list_ex is_change (during_export env)" "no_change_recorded pre"
    by (simp_all add: no_change_recorded_def)
  from Cons.prems(2) have reach: "loop_reaches pre (globals ?r) (temp_dir ?r) = Some (g', td')"
    by (simp add: Let_def split: if_splits flow.splits)
  from Cons.IH [OF q(3) reach] have "last_model_change_time g' = last_model_change_time (globals ?r)" .
  also have "\<dots> = last_model_change_time ?g0" by (rule last_time_stream_iteration [OF q(2)])
  also have "\<dots> = last_model_change_time g" by (rule apply_exts_quiet [OF q(1)])
  finally show ?case .
qed

lemma stream_loop_append:
  assumes "loop_reaches pre g td = Some (g', td')"
  shows "stream_loop (pre @ post) g td =
           (stream_loop post g' td')
             \<lparr>loop_trace := loop_trace (stream_loop pre g td) @ loop_trace (stream_loop post g' td')\<rparr>"
  using assms
proof (induction pre arbitrary: g td)
  case Nil
  then show ?case by simp
next
  case (Cons env pre)
  let ?r = "stream_iteration env (apply_exts (before env) g) td"
  from Cons.prems have ns: "\<not> stop_streaming_event (apply_exts (before env) g)"
    and fl: "flow ?r = Next"
    and reach: "loop_reaches pre (globals ?r) (temp_dir ?r) = Some (g', td')"
    by (simp_all add: Let_def split: if_splits flow.splits)
  from Cons.IH [OF reach] ns fl show ?case by (simp add: Let_def)
qed

text \<open>
  C4 says that with \<^verbatim>\<open>stream_only_when_active\<close> set and the handler never called, every
  iteration from the first one on is idle and nothing is ever sent. It fails on the first
  iteration: the Start operator has just set \<^verbatim>\<open>last_model_change_time\<close> to the clock, so
  an iteration at the same clock reading has idle duration 0, exports and sends.
\<close>

theorem never_changed_yet_sent:
  "no_change_recorded [quiet_env, stop_env] \<and> only_when_active [quiet_env, stop_env]
   \<and> map_option events (streaming_session True 100 True [quiet_env, stop_env] connected_state)
       = Some [Status Streaming,
               MkTemp ''/tmp/blender_vppro_a'',
               ExportScheduled ''/tmp/blender_vppro_a/scene_export.usdz'',
               SendAll [0, 0, 0, 3, 1, 2, 3], Status (Sent 3 30), Sleep (1 / 30),
               RmTree ''/tmp/blender_vppro_a'', Status StreamingStopped]"
  by (simp add: no_change_recorded_def only_when_active_def streaming_session_def
      invoke_start_streaming_def invoke_def start_streaming_poll_def start_streaming_execute_def
      iteration_defs example_defs thread_defs)

text \<open>
  C4 as amended. With the handler never called, an iteration of the streaming loop that
  has \<^verbatim>\<open>stream_only_when_active\<close> set and starts \<^verbatim>\<open>inactivity_threshold\<close> or more after the
  clock reading \<open>t0\<close> of the Start operator skips the export and the send and registers
  the idle status, whatever iterations came before it: after any earlier part \<open>pre\<close> of the
  schedule that the loop has run through, the iteration is exactly the idle status and the
  sleep of 0.5 seconds, it leaves the globals as they are, and in the events of the loop
  these two stand between those of \<open>pre\<close> and those of the rest. So no byte is written in
  such an iteration.
\<close>

theorem idle_while_never_changed:
  assumes start: "invoke_start_streaming True t0 g0 = (FINISHED, g)"
    and quiet: "no_change_recorded (pre @ [env])"
    and reach: "loop_reaches pre g None = Some (g', td)"
    and running: "\<not> stop_streaming_event (apply_exts (before env) g')"
    and active: "stream_only_when_active env"
    and late: "inactivity_threshold env \<le> current_time env - t0"
  shows "stream_iteration env (apply_exts (before env) g') td =
           \<lparr>flow = Next, globals = apply_exts (before env) g', temp_dir = td,
            trace = [Status (Idle (current_time env - t0)), Sleep 0.5]\<rparr>
         \<and> \<not> list_ex is_send (trace (stream_iteration env (apply_exts (before env) g') td))
         \<and> \<not> list_ex is_export (trace (stream_iteration env (apply_exts (before env) g') td))
         \<and> loop_trace (stream_loop (pre @ env # post) g None) =
             loop_trace (stream_loop pre g None)
             @ [Status (Idle (current_time env - t0)), Sleep 0.5]
             @ loop_trace (stream_loop post (apply_exts (before env) g') td)"
proof -
  let ?g1 = "apply_exts (before env) g'"
  from quiet have qp: "no_change_recorded pre" and qe: "\<not> list_ex is_change (before env)"
    by (simp_all add: no_change_recorded_def)
  from invoke_start_streaming_FINISHED [OF start] have "last_model_change_time g = t0" by simp
  with loop_reaches_last_time [OF qp reach] have "last_model_change_time g' = t0" by simp
  then have t: "last_model_change_time ?g1 = t0" by (simp add: apply_exts_quiet [OF qe])
  from active late t have it: "stream_iteration env ?g1 td =
           \<lparr>flow = Next, globals = ?g1, temp_dir = td,
            trace = [Status (Idle (current_time env - t0)), Sleep 0.5]\<rparr>"
    by (simp add: stream_iteration_def Let_def)
  from running it have step: "loop_trace (stream_loop (env # post) g' td) =
      [Status (Idle (current_time env - t0)), Sleep 0.5] @ loop_trace (stream_loop post ?g1 td)"
    by (simp add: Let_def)
  have whole: "loop_trace (stream_loop (pre @ env # post) g None) =
      loop_trace (stream_loop pre g None) @ loop_trace (stream_loop (env # post) g' td)"
    by (simp add: stream_loop_append [OF reach])
  have nothing: "\<not> list_ex is_send (trace (stream_iteration env ?g1 td))"
    "\<not> list_ex is_export (trace (stream_iteration env ?g1 td))"
    by (simp_all add: it)
  from it nothing whole step show ?thesis by (simp only:) simp
qed

theorem idle_while_never_changed_witness:
  "loop_trace
     (stream_loop [quiet_env, quiet_env\<lparr>current_time := 103\<rparr>, stop_env]
        (snd (invoke_start_streaming True 100 connected_state)) None)
   = [MkTemp ''/tmp/blender_vppro_a'',
      ExportScheduled ''/tmp/blender_vppro_a/scene_export.usdz'',
      SendAll [0, 0, 0, 3, 1, 2, 3], Status (Sent 3 30), Sleep (1 / 30),
      Status (Idle 3), Sleep 0.5]"
proof -
  let ?g = "snd (invoke_start_streaming True 100 connected_state)"
  let ?env = "quiet_env\<lparr>current_time := 103\<rparr>"
  have s: "invoke_start_streaming True 100 connected_state = (FINISHED, ?g)"
    by (simp add: invoke_start_streaming_def invoke_def start_streaming_poll_def
        start_streaming_execute_def example_defs)
  have g: "?g = connected_state\<lparr>is_streaming := True, stop_streaming_event := False,
                  last_model_change_time := 100, streaming_thread := Some True\<rparr>"
    by (simp add: invoke_start_streaming_def invoke_def start_streaming_poll_def
        start_streaming_execute_def example_defs)
  have r: "loop_reaches [quiet_env] ?g None = Some (?g, Some ''/tmp/blender_vppro_a'')"
    unfolding g by (simp add: iteration_defs example_defs)
  have h: "no_change_recorded ([quiet_env] @ [?env])"
    "\<not> stop_streaming_event (apply_exts (before ?env) ?g)"
    "stream_only_when_active ?env" "inactivity_threshold ?env \<le> current_time ?env - 100"
    unfolding g by (simp_all add: no_change_recorded_def example_defs)
  note t = idle_while_never_changed [OF s h(1) r h(2) h(3) h(4), of "[stop_env]",
      THEN conjunct2, THEN conjunct2, THEN conjunct2]
  have pre: "loop_trace (stream_loop [quiet_env] ?g None)
      = [MkTemp ''/tmp/blender_vppro_a'',
         ExportScheduled ''/tmp/blender_vppro_a/scene_export.usdz'',
         SendAll [0, 0, 0, 3, 1, 2, 3], Status (Sent 3 30), Sleep (1 / 30)]"
    unfolding g by (simp add: iteration_defs example_defs)
  have post: "loop_trace (stream_loop [stop_env] (apply_exts (before ?env) ?g)
                 (Some ''/tmp/blender_vppro_a'')) = []"
    by (simp add: example_defs)
  have c: "current_time ?env - 100 = 3" by (simp add: example_defs)
  from t pre post c show ?thesis by simp
qed

section \<open>Starting a session\<close>

lemma try_body_exported:
  assumes "mkdtemp env = Inr d" "export env = Exported P" "frame_message P = Inr bs"
    "sendall env = None"
  shows "\<exists>tl. trace (try_body env g td)
           = [MkTemp d, ExportScheduled (d @ ''/scene_export.usdz''), SendAll bs] @ tl"
  using assms by (simp add: try_body_def sleep_frame_def split: sum.splits)

lemma loop_trace_first:
  assumes "\<not> stop_streaming_event (apply_exts (before env) g)"
  shows "\<exists>rest. loop_trace (stream_loop (env # envs) g td)
           = trace (stream_iteration env (apply_exts (before env) g) td) @ rest"
  using assms
  by (cases "flow (stream_iteration env (apply_exts (before env) g) td)") (simp_all add: Let_def)

text \<open>
  C10. When the Start operator launches the thread with \<^verbatim>\<open>stream_only_when_active\<close> set,
  it has set \<^verbatim>\<open>last_model_change_time\<close> to the clock reading \<open>now\<close> before
  \<^verbatim>\<open>streaming_thread.start()\<close>: the thread starts from globals that hold \<open>now\<close>, so the
  session begins active. A first iteration that starts less than
  \<^verbatim>\<open>inactivity_threshold\<close> after \<open>now\<close>, with no change recorded and no stop requested,
  passes the gate, and when its export and its send succeed the first events of the loop
  are the scratch directory, the export and the send of the framed payload.
\<close>

theorem start_streaming_begins_active:
  assumes start: "invoke_start_streaming True now g0 = (FINISHED, g)"
  shows "last_model_change_time g = now \<and> streaming_thread g = Some True
         \<and> (\<not> export_lock g0 \<longrightarrow> \<not> list_ex is_change (before env) \<longrightarrow>
            \<not> list_ex is_stop (before env) \<longrightarrow>
            current_time env - now < inactivity_threshold env \<longrightarrow>
            mkdtemp env = Inr d \<longrightarrow> export env = Exported P \<longrightarrow> length P < 2 ^ 32 \<longrightarrow>
            sendall env = None \<longrightarrow>
            (\<exists>bs. frame_message P = Inr bs
               \<and> take 3 (loop_trace (stream_loop (env # envs) g None))
                   = [MkTemp d, ExportScheduled (d @ ''/scene_export.usdz''), SendAll bs]))"
proof (intro conjI impI)
  note g = invoke_start_streaming_FINISHED [OF start]
  from g show "last_model_change_time g = now" by simp
  from g show "streaming_thread g = Some True" by simp
  assume lock: "\<not> export_lock g0" and quiet: "\<not> list_ex is_change (before env)"
    and nostop: "\<not> list_ex is_stop (before env)"
    and fresh: "current_time env - now < inactivity_threshold env"
    and dir: "mkdtemp env = Inr d" and ex: "export env = Exported P"
    and fits: "length P < 2 ^ 32" and sent: "sendall env = None"
  let ?g1 = "apply_exts (before env) g"
  from frame_message_fits [OF fits] obtain bs where bs: "frame_message P = Inr bs" ..
  from g have "last_model_change_time g = now" "\<not> stop_streaming_event g" "\<not> export_lock g"
    using lock by simp_all
  then have t: "last_model_change_time ?g1 = now" and s: "\<not> stop_streaming_event ?g1"
    and l: "\<not> export_lock ?g1"
    using quiet nostop by (simp_all add: apply_exts_quiet apply_exts_stop)
  from t l fresh have it: "stream_iteration env ?g1 None
      = finally_release (try_body env (?g1\<lparr>export_lock := True\<rparr>) None)"
    by (simp add: stream_iteration_def Let_def)
  from try_body_exported [OF dir ex bs sent] obtain tl
    where tl: "trace (try_body env (?g1\<lparr>export_lock := True\<rparr>) None)
                 = [MkTemp d, ExportScheduled (d @ ''/scene_export.usdz''), SendAll bs] @ tl"
    by blast
  from loop_trace_first [OF s] obtain rest
    where "loop_trace (stream_loop (env # envs) g None)
             = trace (stream_iteration env ?g1 None) @ rest" by blast
  with it tl have "take 3 (loop_trace (stream_loop (env # envs) g None))
      = [MkTemp d, ExportScheduled (d @ ''/scene_export.usdz''), SendAll bs]" by simp
  with bs show "\<exists>bs. frame_message P = Inr bs
               \<and> take 3 (loop_trace (stream_loop (env # envs) g None))
                   = [MkTemp d, ExportScheduled (d @ ''/scene_export.usdz''), SendAll bs]"
    by blast
qed

theorem start_streaming_begins_active_witness:
  "last_model_change_time connected_state = 0
   \<and> last_model_change_time (snd (invoke_start_streaming True 100 connected_state)) = 100
   \<and> take 3 (loop_trace (stream_loop [quiet_env, stop_env]
                (snd (invoke_start_streaming True 100 connected_state)) None))
       = [MkTemp ''/tmp/blender_vppro_a'',
          ExportScheduled ''/tmp/blender_vppro_a/scene_export.usdz'',
          SendAll [0, 0, 0, 3, 1, 2, 3]]"
proof -
  let ?g = "snd (invoke_start_streaming True 100 connected_state)"
  have s: "invoke_start_streaming True 100 connected_state = (FINISHED, ?g)"
    by (simp add: invoke_start_streaming_def invoke_def start_streaming_poll_def
        start_streaming_execute_def example_defs)
  note t = start_streaming_begins_active [OF s, of quiet_env "''/tmp/blender_vppro_a''"
      "[1, 2, 3]" "[stop_env]"]
  have h: "\<not> export_lock connected_state" "\<not> list_ex is_change (before quiet_env)"
    "\<not> list_ex is_stop (before quiet_env)"
    "current_time quiet_env - 100 < inactivity_threshold quiet_env"
    "mkdtemp quiet_env = Inr ''/tmp/blender_vppro_a''" "export quiet_env = Exported [1, 2, 3]"
    "length [1, 2, 3 :: byte] < 2 ^ 32" "sendall quiet_env = None"
    by (simp_all add: example_defs)
  have f: "frame_message [1, 2, 3] = Inr [0, 0, 0, 3, 1, 2, 3]"
    by (simp add: frame_message_def to_bytes_4_big_def)
  from t [THEN conjunct2, THEN conjunct2, rule_format, OF h] f
  have 3: "take 3 (loop_trace (stream_loop [quiet_env, stop_env] ?g None))
       = [MkTemp ''/tmp/blender_vppro_a'',
          ExportScheduled ''/tmp/blender_vppro_a/scene_export.usdz'',
          SendAll [0, 0, 0, 3, 1, 2, 3]]" by auto
  have 0: "last_model_change_time connected_state = 0" by (simp add: example_defs)
  from t [THEN conjunct1] 0 3 show ?thesis by blast
qed

section \<open>One connection at a time\<close>

lemma single_connection_conn_step:
  "single_connection g \<Longrightarrow> single_connection (conn_step x g)"
  by (cases x)
     (auto simp: single_connection_def invoke_connect_def invoke_disconnect_def invoke_def
        connect_poll_def connect_execute_def disconnect_poll_def disconnect_execute_def Let_def
        split: option.splits sum.splits)

lemma single_connection_conn_run:
  "single_connection g \<Longrightarrow> single_connection (conn_run ops g)"
  by (induction ops arbitrary: g) (simp_all add: single_connection_conn_step)

lemma single_connection_length: "single_connection g \<Longrightarrow> length (open_sockets g) \<le> 1"
  by (simp add: single_connection_def split: option.splits)

text \<open>
  C8. In every state in which \<^verbatim>\<open>current_connection\<close> holds a socket, invoking the Connect
  operator does not succeed: its \<^verbatim>\<open>poll\<close> fails, Blender refuses to run \<^verbatim>\<open>execute\<close>, and
  the state is unchanged. So in every state reached from the initial one by discovery
  events and Connect and Disconnect invocations, at most one socket is open, and it is the
  one \<^verbatim>\<open>current_connection\<close> holds.
\<close>

theorem connect_refused_while_connected:
  "(current_connection g \<noteq> None \<longrightarrow> invoke_connect name r g = (POLL_FAILED, g))
   \<and> single_connection (conn_run ops initial_state)
   \<and> length (open_sockets (conn_run ops initial_state)) \<le> 1"
proof -
  have "single_connection initial_state"
    by (simp add: single_connection_def initial_state_def)
  then have inv: "single_connection (conn_run ops initial_state)"
    by (rule single_connection_conn_run)
  have refused: "current_connection g \<noteq> None \<longrightarrow> invoke_connect name r g = (POLL_FAILED, g)"
    by (simp add: invoke_connect_def invoke_def connect_poll_def)
  from refused inv single_connection_length [OF inv] show ?thesis by blast
qed

theorem connect_refused_while_connected_witness:
  "current_connection connected_state = Some 1
   \<and> invoke_connect ''Vision._visionpro_blender._tcp.local.'' (\<lambda>h p. Inr 2) connected_state
       = (POLL_FAILED, connected_state)
   \<and> open_sockets
       (conn_run
          [ServiceAdded ''Vision._visionpro_blender._tcp.local.''
             \<lparr>host = ''vision.local.'', port = 5000, addresses = [''10.0.0.7'']\<rparr>,
           Connect ''Vision._visionpro_blender._tcp.local.'' (\<lambda>h p. Inr 1),
           Connect ''Vision._visionpro_blender._tcp.local.'' (\<lambda>h p. Inr 2)]
          initial_state) = [1]"
proof -
  have c: "current_connection connected_state = Some 1" by (simp add: example_defs)
  then have n: "current_connection connected_state \<noteq> None" by simp
  note t = connect_refused_while_connected
    [of connected_state "''Vision._visionpro_blender._tcp.local.''" "\<lambda>h p. Inr 2" "[]"]
  from t [THEN conjunct1, rule_format, OF n]
  have 1: "invoke_connect ''Vision._visionpro_blender._tcp.local.'' (\<lambda>h p. Inr 2) connected_state
       = (POLL_FAILED, connected_state)" .
  have 2: "open_sockets
       (conn_run
          [ServiceAdded ''Vision._visionpro_blender._tcp.local.''
             \<lparr>host = ''vision.local.'', port = 5000, addresses = [''10.0.0.7'']\<rparr>,
           Connect ''Vision._visionpro_blender._tcp.local.'' (\<lambda>h p. Inr 1),
           Connect ''Vision._visionpro_blender._tcp.local.'' (\<lambda>h p. Inr 2)]
          initial_state) = [1]"
    by (simp add: initial_state_def invoke_connect_def invoke_def connect_poll_def
        connect_execute_def target_host_def)
  from c 1 2 show ?thesis by blast
qed

end
